theory Spec2Isabelle
  imports Main "HOL-Library.Sublist"
begin

section \<open>Python values and library functions\<close>

text \<open>
  The release automation threads the result of \<^verbatim>\<open>yaml.safe_load\<close> through its code
  as untyped Python values. \<open>yaml\<close> is the type of those values: \<open>YNull\<close> is Python's
  \<^verbatim>\<open>None\<close>, a mapping is an association list in insertion order. Floats, binary
  scalars, timestamps and sets, which \<^verbatim>\<open>safe_load\<close> can also build, are not part of
  the model. Strings are byte strings, so \<^verbatim>\<open>\d\<close> is an ASCII digit.
\<close>

datatype yaml =
    YNull
  | YBool bool
  | YInt int
  | YStr string
  | YList "yaml list"
  | YMap "(yaml \<times> yaml) list"

datatype py_error = AttributeError | TypeError | KeyError | IndexError | NameError | ValueError

text \<open>The truth value Python gives a value in \<^verbatim>\<open>if x:\<close> and \<^verbatim>\<open>x or y\<close>.\<close>

fun truthy :: "yaml \<Rightarrow> bool" where
  "truthy YNull = False"
| "truthy (YBool b) = b"
| "truthy (YInt i) = (i \<noteq> 0)"
| "truthy (YStr s) = (s \<noteq> [])"
| "truthy (YList xs) = (xs \<noteq> [])"
| "truthy (YMap kvs) = (kvs \<noteq> [])"

text \<open>
  \<^verbatim>\<open>d.get(k, default)\<close>: only a mapping has the method, every other value raises
  AttributeError.
\<close>

definition py_get :: "yaml \<Rightarrow> string \<Rightarrow> yaml \<Rightarrow> py_error + yaml" where
  "py_get d k dflt =
     (case d of
        YMap kvs \<Rightarrow> Inr (case map_of kvs (YStr k) of Some v \<Rightarrow> v | None \<Rightarrow> dflt)
      | _ \<Rightarrow> Inl AttributeError)"

text \<open>\<^verbatim>\<open>d[k]\<close> on a value the caller knows to be a mapping.\<close>

definition py_item :: "yaml \<Rightarrow> string \<Rightarrow> py_error + yaml" where
  "py_item d k =
     (case d of
        YMap kvs \<Rightarrow> (case map_of kvs (YStr k) of Some v \<Rightarrow> Inr v | None \<Rightarrow> Inl KeyError)
      | _ \<Rightarrow> Inl TypeError)"

text \<open>
  \<^verbatim>\<open>for x in v\<close>: a list yields its elements, a mapping its keys, a string its
  one-character substrings; the other values are not iterable.
\<close>

definition py_iter :: "yaml \<Rightarrow> py_error + yaml list" where
  "py_iter v =
     (case v of
        YList xs \<Rightarrow> Inr xs
      | YMap kvs \<Rightarrow> Inr (map fst kvs)
      | YStr s \<Rightarrow> Inr (map (\<lambda>c. YStr [c]) s)
      | _ \<Rightarrow> Inl TypeError)"

text \<open>Sequencing of computations that may raise.\<close>

definition and_then :: "'e + 'a \<Rightarrow> ('a \<Rightarrow> 'e + 'b) \<Rightarrow> 'e + 'b" where
  "and_then m f = (case m of Inl e \<Rightarrow> Inl e | Inr x \<Rightarrow> f x)"

subsection \<open>Decimal numerals\<close>

definition is_digit :: "char \<Rightarrow> bool" where
  "is_digit c = (c \<in> set ''0123456789'')"

definition is_lower :: "char \<Rightarrow> bool" where
  "is_lower c = (c \<in> set ''abcdefghijklmnopqrstuvwxyz'')"

definition digit_val :: "char \<Rightarrow> nat" where
  "digit_val c = (of_char c :: nat) - 48"

definition digit_char :: "nat \<Rightarrow> char" where
  "digit_char d = ''0123456789'' ! d"

text \<open>\<^verbatim>\<open>int(s)\<close> on a string of decimal digits.\<close>

definition int_of_digits :: "string \<Rightarrow> int" where
  "int_of_digits s = int (foldl (\<lambda>acc c. 10 * acc + digit_val c) 0 s)"

text \<open>\<^verbatim>\<open>str(n)\<close> and the \<^verbatim>\<open>{n}\<close> of an f-string, for an integer.\<close>

fun str_nat :: "nat \<Rightarrow> string" where
  "str_nat n = (if n < 10 then [digit_char n] else str_nat (n div 10) @ [digit_char (n mod 10)])"

declare str_nat.simps [simp del]

definition str_int :: "int \<Rightarrow> string" where
  "str_int i = (if i < 0 then CHR ''-'' # str_nat (nat (- i)) else str_nat (nat i))"

section \<open>The repository query capability\<close>

text \<open>
  \<^verbatim>\<open>GitHubClient\<close> is the external collaborator: each query the two components make
  is a field of the record, with the result type the client's method declares. The
  client catches the transport's \<^verbatim>\<open>GitHubClientError\<close> itself in all of them but
  the branch and release listings, where the specification leaves transport faults to
  the caller; they are not modelled.
\<close>

record Branch =
  name :: string
  sha :: string

record Release =
  tag_name :: string
  release_name :: string
  draft :: bool
  prerelease :: bool
  html_url :: string

text \<open>
  An issue as \<^verbatim>\<open>search_issues\<close> returns it: \<^verbatim>\<open>body\<close> and \<^verbatim>\<open>title\<close> may be
  null in the JSON.
\<close>

record Issue =
  number :: int
  title :: "string option"
  body :: "string option"

record GitHubClient =
  tag_exists :: "string \<Rightarrow> bool"
  list_branches :: "string \<Rightarrow> Branch list"
  draft_release_exists :: "string \<Rightarrow> bool"
  get_file_content :: "string \<Rightarrow> string \<Rightarrow> string option"
  get_releases :: "bool \<Rightarrow> Release list"
  get_branch_creation_time :: "string \<Rightarrow> string option"
  find_pr_for_branch :: "string \<Rightarrow> int option"
  search_issues :: "string list \<Rightarrow> string \<Rightarrow> Issue list"

text \<open>
  The library functions the code calls. \<open>safe_load\<close> is \<^verbatim>\<open>yaml.safe_load\<close>. It has
  three outcomes: it returns a value; it raises \<^verbatim>\<open>yaml.YAMLError\<close>, with a message; or
  it raises an exception that is not a \<^verbatim>\<open>yaml.YAMLError\<close>. The third happens when a
  constructor fails on a scalar the resolver accepted: \<^verbatim>\<open>2001-13-40\<close> has the shape of
  a date, and building the date raises ValueError. \<open>format_value\<close> is what an f-string
  makes of a value that is not a string; \<open>fromisoformat\<close> is
  \<^verbatim>\<open>datetime.fromisoformat\<close>, \<open>None\<close> where it raises ValueError; \<open>now\<close> is the
  clock reading of \<^verbatim>\<open>datetime.now()\<close>. A point in time is an integer.
\<close>

datatype load_result = YAMLError string | Raises py_error | Loaded yaml

type_synonym datetime = int

record PyLib =
  safe_load :: "string \<Rightarrow> load_result"
  format_value :: "yaml \<Rightarrow> string"
  fromisoformat :: "string \<Rightarrow> datetime option"
  now :: datetime

definition RELEASE_PLAN_FILE :: string where
  "RELEASE_PLAN_FILE = ''release-plan.yaml''"

definition RELEASE_METADATA_FILE :: string where
  "RELEASE_METADATA_FILE = ''release-metadata.yaml''"

definition SNAPSHOT_BRANCH_PREFIX :: string where
  "SNAPSHOT_BRANCH_PREFIX = ''release-snapshot/''"

definition RELEASE_REVIEW_BRANCH_PREFIX :: string where
  "RELEASE_REVIEW_BRANCH_PREFIX = ''release-review/''"

text \<open>
  The shape shared by \<^verbatim>\<open>_read_release_plan\<close> and both \<^verbatim>\<open>_read_release_metadata\<close>
  methods: absent or empty content gives \<^verbatim>\<open>None\<close>; the \<^verbatim>\<open>try\<close> has the one handler
  \<^verbatim>\<open>except yaml.YAMLError\<close>, so a YAML error gives \<^verbatim>\<open>None\<close> and any other exception
  of the loader leaves the method; anything else is the loaded value, whatever its type.
\<close>

definition read_yaml_file ::
  "GitHubClient \<Rightarrow> PyLib \<Rightarrow> string \<Rightarrow> string \<Rightarrow> py_error + yaml" where
  "read_yaml_file gh lib path ref =
     (case get_file_content gh path ref of
        None \<Rightarrow> Inr YNull
      | Some content \<Rightarrow>
          if content = [] then Inr YNull
          else (case safe_load lib content of
                  YAMLError e \<Rightarrow> Inr YNull
                | Raises x \<Rightarrow> Inl x
                | Loaded v \<Rightarrow> Inr v))"

text \<open>
  The two conditions the handlers of such a read cover: the file is not there, or
  loading its text raises \<^verbatim>\<open>yaml.YAMLError\<close>. A text on which the loader raises
  another exception is neither.
\<close>

definition missing_or_yaml_error :: "GitHubClient \<Rightarrow> PyLib \<Rightarrow> string \<Rightarrow> string \<Rightarrow> bool" where
  "missing_or_yaml_error gh lib path ref =
     (case get_file_content gh path ref of
        None \<Rightarrow> True
      | Some content \<Rightarrow>
          (case safe_load lib content of
             YAMLError e \<Rightarrow> True
           | Raises x \<Rightarrow> False
           | Loaded v \<Rightarrow> False))"

section \<open>The version calculator\<close>

subsection \<open>The two regular expressions\<close>

text \<open>
  Both patterns are anchored sequences of character classes separated by literal
  characters outside the classes, so the greedy run of a class is the only run that can
  be followed by the separator: matching is deterministic and \<open>span\<close> computes it.
  Python's \<^verbatim>\<open>$\<close> matches at the end of the string and also before one final newline.
\<close>

definition span :: "(char \<Rightarrow> bool) \<Rightarrow> string \<Rightarrow> string \<times> string" where
  "span P s = (takeWhile P s, dropWhile P s)"

definition at_end :: "string \<Rightarrow> bool" where
  "at_end s = (s = [] \<or> s = [CHR 0x0A])"

text \<open>\<^verbatim>\<open>(\d+)\.(\d+)\.(\d+)\<close> at the start of the string: the three groups and the rest.\<close>

definition match_triple :: "string \<Rightarrow> (string \<times> string \<times> string \<times> string) option" where
  "match_triple s =
     (case span is_digit s of
        (major, r1) \<Rightarrow>
          if major = [] then None else
          (case r1 of
             [] \<Rightarrow> None
           | c1 # r2 \<Rightarrow>
               if c1 \<noteq> CHR ''.'' then None else
               (case span is_digit r2 of
                  (minor, r3) \<Rightarrow>
                    if minor = [] then None else
                    (case r3 of
                       [] \<Rightarrow> None
                     | c2 # r4 \<Rightarrow>
                         if c2 \<noteq> CHR ''.'' then None else
                         (case span is_digit r4 of
                            (patch, r5) \<Rightarrow>
                              if patch = [] then None else Some (major, minor, patch, r5))))))"

text \<open>\<^verbatim>\<open>-([a-z]+)\.(\d+)$\<close>: the status and the extension.\<close>

definition match_suffix :: "string \<Rightarrow> (string \<times> string) option" where
  "match_suffix s =
     (case s of
        [] \<Rightarrow> None
      | c # r1 \<Rightarrow>
          if c \<noteq> CHR ''-'' then None else
          (case span is_lower r1 of
             (status, r2) \<Rightarrow>
               if status = [] then None else
               (case r2 of
                  [] \<Rightarrow> None
                | d # r3 \<Rightarrow>
                    if d \<noteq> CHR ''.'' then None else
                    (case span is_digit r3 of
                       (extension, r4) \<Rightarrow>
                         if extension = [] \<or> \<not> at_end r4 then None
                         else Some (status, extension)))))"

text \<open>
  The pattern of \<^verbatim>\<open>calculate_url_version\<close>,
  \<^verbatim>\<open>^(\d+)\.(\d+)\.(\d+)(?:-([a-z]+)\.(\d+))?$\<close>; the optional group is \<open>None\<close>
  when it did not take part in the match.
\<close>

definition match_url_pattern ::
  "string \<Rightarrow> (string \<times> string \<times> string \<times> (string \<times> string) option) option" where
  "match_url_pattern s =
     (case match_triple s of
        None \<Rightarrow> None
      | Some (major, minor, patch, rest) \<Rightarrow>
          (case match_suffix rest of
             Some se \<Rightarrow> Some (major, minor, patch, Some se)
           | None \<Rightarrow> if at_end rest then Some (major, minor, patch, None) else None))"

text \<open>\<^verbatim>\<open>VERSION_PATTERN\<close>, \<^verbatim>\<open>^(\d+\.\d+\.\d+)-([a-z]+)\.(\d+)$\<close>.\<close>

definition match_VERSION_PATTERN :: "string \<Rightarrow> (string \<times> string \<times> string) option" where
  "match_VERSION_PATTERN s =
     (case match_triple s of
        None \<Rightarrow> None
      | Some (major, minor, patch, rest) \<Rightarrow>
          (case match_suffix rest of
             None \<Rightarrow> None
           | Some (status, extension) \<Rightarrow>
               Some (major @ ''.'' @ minor @ ''.'' @ patch, status, extension)))"

text \<open>
  The well-formed components of a version: a non-empty run of digits (\<^verbatim>\<open>\d+\<close>) and a
  non-empty run of lower-case letters (\<^verbatim>\<open>[a-z]+\<close>).
\<close>

definition digits :: "string \<Rightarrow> bool" where
  "digits s = (s \<noteq> [] \<and> list_all is_digit s)"

definition lowers :: "string \<Rightarrow> bool" where
  "lowers s = (s \<noteq> [] \<and> list_all is_lower s)"

subsection \<open>URL version and extension parsing\<close>

definition calculate_url_version :: "string \<Rightarrow> string" where
  "calculate_url_version api_version =
     (if api_version = ''wip'' then ''vwip''
      else
        (case match_url_pattern api_version of
           None \<Rightarrow> ''vwip''
         | Some (major_s, minor, patch, suffix_groups) \<Rightarrow>
             (let major = int_of_digits major_s;
                  base = (if major = 0 then ''v0.'' @ minor else ''v'' @ str_int major)
              in (case suffix_groups of
                    Some (status, extension) \<Rightarrow>
                      if status \<noteq> [] \<and> extension \<noteq> [] then base @ status @ extension
                      else base
                  | None \<Rightarrow> base))))"

definition parse_extension :: "string \<Rightarrow> string \<Rightarrow> string \<Rightarrow> int option" where
  "parse_extension version target_version target_status =
     (case match_VERSION_PATTERN version of
        None \<Rightarrow> None
      | Some (base_version, status, extension) \<Rightarrow>
          if status \<noteq> target_status then None
          else
            (let existing_url = calculate_url_version (base_version @ ''-'' @ status @ ''.1'');
                 target_url = calculate_url_version (target_version @ ''-'' @ status @ ''.1'')
             in if existing_url = target_url then Some (int_of_digits extension) else None))"

subsection \<open>Scanning the published releases\<close>

definition vc_read_release_metadata ::
  "GitHubClient \<Rightarrow> PyLib \<Rightarrow> string \<Rightarrow> py_error + yaml" where
  "vc_read_release_metadata gh lib tag = read_yaml_file gh lib ''release-metadata.yaml'' tag"

text \<open>
  The inner loop of \<^verbatim>\<open>find_existing_extensions\<close> over the entries of one release,
  appending to \<open>extensions\<close>. \<^verbatim>\<open>api.get\<close> raises on an entry that is not a mapping,
  and the regular expression raises TypeError on a version that is not a string.
\<close>

fun scan_apis :: "string \<Rightarrow> string \<Rightarrow> string \<Rightarrow> yaml list \<Rightarrow> int list \<Rightarrow> py_error + int list" where
  "scan_apis api_name target_version target_status [] extensions = Inr extensions"
| "scan_apis api_name target_version target_status (api # apis) extensions =
     and_then (py_get api ''api_name'' YNull) (\<lambda>n.
       if n \<noteq> YStr api_name
       then scan_apis api_name target_version target_status apis extensions
       else
         and_then (py_get api ''api_version'' (YStr [])) (\<lambda>api_version.
           (case api_version of
              YStr version \<Rightarrow>
                (case parse_extension version target_version target_status of
                   None \<Rightarrow> scan_apis api_name target_version target_status apis extensions
                 | Some ext \<Rightarrow>
                     scan_apis api_name target_version target_status apis (extensions @ [ext]))
            | _ \<Rightarrow> Inl TypeError)))"

text \<open>The outer loop over the releases.\<close>

fun scan_releases ::
  "GitHubClient \<Rightarrow> PyLib \<Rightarrow> string \<Rightarrow> string \<Rightarrow> string \<Rightarrow> Release list \<Rightarrow> int list
     \<Rightarrow> py_error + int list" where
  "scan_releases gh lib api_name target_version target_status [] extensions = Inr extensions"
| "scan_releases gh lib api_name target_version target_status (release # releases) extensions =
     and_then (vc_read_release_metadata gh lib (tag_name release)) (\<lambda>metadata.
       if \<not> truthy metadata
       then scan_releases gh lib api_name target_version target_status releases extensions
       else
         and_then (py_get metadata ''apis'' (YList [])) (\<lambda>apis.
         and_then (py_iter apis) (\<lambda>entries.
         and_then (scan_apis api_name target_version target_status entries extensions) (\<lambda>extensions'.
           scan_releases gh lib api_name target_version target_status releases extensions'))))"

definition find_existing_extensions ::
  "GitHubClient \<Rightarrow> PyLib \<Rightarrow> string \<Rightarrow> string \<Rightarrow> string \<Rightarrow> py_error + int list" where
  "find_existing_extensions gh lib api_name target_version target_status =
     scan_releases gh lib api_name target_version target_status (get_releases gh False) []"

text \<open>\<^verbatim>\<open>max(existing)\<close> of a list the caller has found non-empty.\<close>

definition py_max :: "int list \<Rightarrow> int" where
  "py_max xs = foldl max (hd xs) (tl xs)"

definition calculate_version ::
  "GitHubClient \<Rightarrow> PyLib \<Rightarrow> string \<Rightarrow> string \<Rightarrow> string \<Rightarrow> py_error + string" where
  "calculate_version gh lib api_name target_version target_status =
     (if target_status = ''public'' then Inr target_version
      else
        and_then (find_existing_extensions gh lib api_name target_version target_status) (\<lambda>existing.
          (let next_ext = (if existing \<noteq> [] then py_max existing + 1 else 1)
           in Inr (target_version @ ''-'' @ target_status @ ''.'' @ str_int next_ext))))"

section \<open>The state manager\<close>

datatype ReleaseState = PLANNED | SNAPSHOT_ACTIVE | DRAFT_READY | PUBLISHED | NOT_PLANNED

definition WORKFLOW_MARKER :: string where
  "WORKFLOW_MARKER = ''<!-- release-automation:workflow-owned -->''"

definition RELEASE_ISSUE_LABEL :: string where
  "RELEASE_ISSUE_LABEL = ''release-issue''"

subsection \<open>String methods\<close>

definition lower_char :: "char \<Rightarrow> char" where
  "lower_char c =
     (case map_of (zip ''ABCDEFGHIJKLMNOPQRSTUVWXYZ'' ''abcdefghijklmnopqrstuvwxyz'') c of
        Some l \<Rightarrow> l
      | None \<Rightarrow> c)"

definition py_lower :: "string \<Rightarrow> string" where
  "py_lower s = map lower_char s"

text \<open>\<^verbatim>\<open>s.replace(old, new)\<close>: every occurrence, left to right, without overlap.\<close>

function replace :: "string \<Rightarrow> string \<Rightarrow> string \<Rightarrow> string" where
  "replace [] old new = (if old = [] then new else [])"
| "replace (c # cs) old new =
     (if old = [] then new @ c # replace cs old new
      else if prefix old (c # cs) then new @ replace (drop (length old) (c # cs)) old new
      else c # replace cs old new)"
  by pat_completeness auto
termination
  by (relation "measure (\<lambda>(s, old, new). length s)") auto

text \<open>\<^verbatim>\<open>s.split(sep)\<close> for a separator of one character.\<close>

fun py_split :: "char \<Rightarrow> string \<Rightarrow> string list" where
  "py_split sep [] = [[]]"
| "py_split sep (c # cs) =
     (if c = sep then [] # py_split sep cs
      else (case py_split sep cs of [] \<Rightarrow> [[c]] | x # xs \<Rightarrow> (c # x) # xs))"

text \<open>A value inside an f-string, and \<^verbatim>\<open>a or b\<close>.\<close>

definition py_str :: "PyLib \<Rightarrow> yaml \<Rightarrow> string" where
  "py_str lib v = (case v of YStr s \<Rightarrow> s | _ \<Rightarrow> format_value lib v)"

definition py_or :: "yaml \<Rightarrow> yaml \<Rightarrow> yaml" where
  "py_or a b = (if truthy a then a else b)"

subsection \<open>Reading the two documents\<close>

definition read_release_plan :: "GitHubClient \<Rightarrow> PyLib \<Rightarrow> py_error + yaml" where
  "read_release_plan gh lib = read_yaml_file gh lib RELEASE_PLAN_FILE ''main''"

definition read_release_metadata ::
  "GitHubClient \<Rightarrow> PyLib \<Rightarrow> string \<Rightarrow> py_error + yaml" where
  "read_release_metadata gh lib ref = read_yaml_file gh lib RELEASE_METADATA_FILE ref"

subsection \<open>State derivation\<close>

text \<open>
  \<^verbatim>\<open>release_type and release_type.lower() != "none"\<close> and its twin with \<^verbatim>\<open>==\<close>:
  a falsy value ends the conjunction, a string is lowered, any other truthy value has
  no \<^verbatim>\<open>lower\<close>.
\<close>

definition type_and_lower_differs :: "yaml \<Rightarrow> py_error + bool" where
  "type_and_lower_differs t =
     (if \<not> truthy t then Inr False
      else (case t of YStr s \<Rightarrow> Inr (py_lower s \<noteq> ''none'') | _ \<Rightarrow> Inl AttributeError))"

definition type_and_lower_equals :: "yaml \<Rightarrow> py_error + bool" where
  "type_and_lower_equals t =
     (if \<not> truthy t then Inr False
      else (case t of YStr s \<Rightarrow> Inr (py_lower s = ''none'') | _ \<Rightarrow> Inl AttributeError))"

definition derive_state :: "GitHubClient \<Rightarrow> PyLib \<Rightarrow> string \<Rightarrow> py_error + ReleaseState" where
  "derive_state gh lib release_tag =
     (if tag_exists gh release_tag then Inr PUBLISHED
      else
        (let snapshot_branches = list_branches gh (SNAPSHOT_BRANCH_PREFIX @ release_tag @ ''-*'')
         in if snapshot_branches \<noteq> []
            then (if draft_release_exists gh release_tag then Inr DRAFT_READY
                  else Inr SNAPSHOT_ACTIVE)
            else
              and_then (read_release_plan gh lib) (\<lambda>plan.
                  if truthy plan
                  then
                    and_then (py_get plan ''repository'' (YMap [])) (\<lambda>repo_a.
                    and_then (py_get repo_a ''target_release_tag'' YNull) (\<lambda>target_tag.
                    and_then (py_get plan ''repository'' (YMap [])) (\<lambda>repo_b.
                    and_then (py_get repo_b ''target_release_type'' YNull) (\<lambda>rtype.
                      if target_tag = YStr release_tag
                      then
                        and_then (type_and_lower_differs rtype) (\<lambda>differs.
                          if differs then Inr PLANNED
                          else
                            and_then (type_and_lower_equals rtype) (\<lambda>equals.
                              if equals then Inr NOT_PLANNED else Inr NOT_PLANNED))
                      else Inr NOT_PLANNED))))
                  else Inr NOT_PLANNED)))"

subsection \<open>The current snapshot\<close>

text \<open>
  The fields read from the metadata document hold whatever value the document has
  there, so they have type \<open>yaml\<close>.
\<close>

record SnapshotInfo =
  snapshot_id :: string
  snapshot_branch :: string
  release_review_branch :: string
  src_commit_sha :: yaml
  created_at :: datetime
  release_pr_number :: "int option"
  release_type :: yaml
  apis :: yaml
  commonalities_release :: yaml
  identity_consent_management_release :: yaml

definition branch_created_at :: "GitHubClient \<Rightarrow> PyLib \<Rightarrow> string \<Rightarrow> datetime" where
  "branch_created_at gh lib branch_name =
     (case get_branch_creation_time gh branch_name of
        None \<Rightarrow> now lib
      | Some created_at_str \<Rightarrow>
          if created_at_str = [] then now lib
          else (case fromisoformat lib (replace created_at_str ''Z'' ''+00:00'') of
                  Some t \<Rightarrow> t
                | None \<Rightarrow> now lib))"

definition get_current_snapshot ::
  "GitHubClient \<Rightarrow> PyLib \<Rightarrow> string \<Rightarrow> py_error + SnapshotInfo option" where
  "get_current_snapshot gh lib release_tag =
     (case list_branches gh (SNAPSHOT_BRANCH_PREFIX @ release_tag @ ''-*'') of
        [] \<Rightarrow> Inr None
      | branch # others \<Rightarrow>
          (let branch_name = name branch;
               snap_id = replace branch_name SNAPSHOT_BRANCH_PREFIX []
           in and_then (read_release_metadata gh lib branch_name) (\<lambda>metadata.
              and_then
                (if truthy metadata
                 then
                   and_then (py_get metadata ''repository'' (YMap [])) (\<lambda>repo_section.
                   and_then (py_get repo_section ''src_commit_sha'' (YStr (sha branch))) (\<lambda>src.
                   and_then (py_get repo_section ''release_type'' (YStr [])) (\<lambda>rtype.
                   and_then (py_get metadata ''apis'' (YList [])) (\<lambda>api_list.
                   and_then (py_get metadata ''dependencies'' (YMap [])) (\<lambda>deps.
                   and_then (py_get deps ''commonalities_release'' (YStr [])) (\<lambda>comm.
                   and_then (py_get deps ''identity_consent_management_release'' (YStr [])) (\<lambda>icm.
                     Inr (src, rtype, api_list, comm, icm))))))))
                 else Inr (YStr (sha branch), YStr [], YList [], YStr [], YStr []))
                (\<lambda>(src, rtype, api_list, comm, icm).
                   (let created = branch_created_at gh lib branch_name;
                        review_branch = RELEASE_REVIEW_BRANCH_PREFIX @ snap_id;
                        pr_number = find_pr_for_branch gh review_branch
                    in Inr (Some \<lparr>snapshot_id = snap_id,
                                    snapshot_branch = branch_name,
                                    release_review_branch = review_branch,
                                    src_commit_sha = src,
                                    created_at = created,
                                    release_pr_number = pr_number,
                                    release_type = rtype,
                                    apis = api_list,
                                    commonalities_release = comm,
                                    identity_consent_management_release = icm\<rparr>))))))"

subsection \<open>The tracking issue\<close>

text \<open>
  The tag handed to \<^verbatim>\<open>find_release_issue\<close> may come out of a document, so it is a
  \<open>yaml\<close> value; \<^verbatim>\<open>release_tag in title\<close> raises TypeError unless it is a string.
\<close>

fun find_in_issues :: "yaml \<Rightarrow> Issue list \<Rightarrow> py_error + int option" where
  "find_in_issues release_tag [] = Inr None"
| "find_in_issues release_tag (issue # issues) =
     (let body_text = (case body issue of None \<Rightarrow> [] | Some b \<Rightarrow> b);
          title_text = (case title issue of None \<Rightarrow> [] | Some t \<Rightarrow> t)
      in if \<not> sublist WORKFLOW_MARKER body_text then find_in_issues release_tag issues
         else (case release_tag of
                 YStr tag \<Rightarrow>
                   if sublist tag title_text then Inr (Some (number issue))
                   else find_in_issues release_tag issues
               | _ \<Rightarrow> Inl TypeError))"

definition find_release_issue :: "GitHubClient \<Rightarrow> yaml \<Rightarrow> py_error + int option" where
  "find_release_issue gh release_tag =
     find_in_issues release_tag (search_issues gh [RELEASE_ISSUE_LABEL] ''open'')"

subsection \<open>Release information and configuration errors\<close>

record ConfigurationError =
  error_type :: string
  message :: string
  file_path :: string
  field_path :: "string option"

record ReleaseInfoResult =
  success :: bool
  release_tag :: yaml
  state :: "ReleaseState option"
  snapshot_branch :: "string option"
  source :: "string option"
  config_error :: "ConfigurationError option"
  release_issue_number :: "int option"
  release_type :: yaml

text \<open>
  \<^verbatim>\<open>_read_release_plan_with_validation\<close> with its default \<^verbatim>\<open>ref="main"\<close>; the pair
  is the tuple the method returns, \<open>YNull\<close> standing for the \<^verbatim>\<open>None\<close> plan. Its
  \<^verbatim>\<open>try\<close> too handles \<^verbatim>\<open>yaml.YAMLError\<close> only.
\<close>

definition read_release_plan_with_validation ::
  "GitHubClient \<Rightarrow> PyLib \<Rightarrow> py_error + yaml \<times> ConfigurationError option" where
  "read_release_plan_with_validation gh lib =
     (case get_file_content gh RELEASE_PLAN_FILE ''main'' of
        None \<Rightarrow>
          Inr (YNull, Some \<lparr>error_type = ''missing_file'',
                         message = ''No '' @ RELEASE_PLAN_FILE @ '' found on main branch'',
                         file_path = RELEASE_PLAN_FILE,
                         field_path = None\<rparr>)
      | Some content \<Rightarrow>
          (case safe_load lib content of
             YAMLError e \<Rightarrow>
               Inr (YNull, Some \<lparr>error_type = ''malformed_yaml'',
                              message = ''Invalid YAML syntax in '' @ RELEASE_PLAN_FILE @ '': '' @ e,
                              file_path = RELEASE_PLAN_FILE,
                              field_path = None\<rparr>)
           | Raises x \<Rightarrow> Inl x
           | Loaded plan \<Rightarrow>
               (case plan of
                  YMap entries \<Rightarrow>
                    (let repository = (case map_of entries (YStr ''repository'') of
                                         Some v \<Rightarrow> v | None \<Rightarrow> YNull)
                     in (case repository of
                           YMap repo_entries \<Rightarrow>
                             if repo_entries = [] then
                               Inr (YNull, Some \<lparr>error_type = ''missing_field'',
                                  message = ''Missing 'repository' section in '' @ RELEASE_PLAN_FILE,
                                  file_path = RELEASE_PLAN_FILE,
                                  field_path = Some ''repository''\<rparr>)
                             else
                               (let target_release_tag =
                                      (case map_of repo_entries (YStr ''target_release_tag'') of
                                         Some v \<Rightarrow> v | None \<Rightarrow> YNull)
                                in if \<not> truthy target_release_tag then
                                     Inr (YNull, Some \<lparr>error_type = ''missing_field'',
                                        message = ''Missing 'target_release_tag' in ''
                                          @ RELEASE_PLAN_FILE @ '' repository section'',
                                        file_path = RELEASE_PLAN_FILE,
                                        field_path = Some ''repository.target_release_tag''\<rparr>)
                                   else Inr (plan, None))
                         | _ \<Rightarrow>
                             Inr (YNull, Some \<lparr>error_type = ''missing_field'',
                                message = ''Missing 'repository' section in '' @ RELEASE_PLAN_FILE,
                                file_path = RELEASE_PLAN_FILE,
                                field_path = Some ''repository''\<rparr>)))
                | _ \<Rightarrow>
                    Inr (YNull, Some \<lparr>error_type = ''malformed_yaml'',
                       message = RELEASE_PLAN_FILE
                         @ '' must contain a YAML mapping (not empty or scalar)'',
                       file_path = RELEASE_PLAN_FILE,
                       field_path = None\<rparr>))))"

text \<open>
  The names bound in \<^verbatim>\<open>get_current_release_info\<close> when the snapshot path builds its
  result; \<^verbatim>\<open>snapshot_id\<close> is bound only where the metadata could not be used. The
  method never assigns \<^verbatim>\<open>snapshot\<close>, so Python compiles that name as a global, and
  the module defines no such global: reading it would raise NameError.
\<close>

definition snapshot_path_locals :: "bool \<Rightarrow> string list" where
  "snapshot_path_locals has_metadata =
     [''self'', ''plan'', ''config_error'', ''plan_release_tag'', ''plan_release_type'',
      ''snapshot_branches'', ''snapshot_branch'', ''metadata'', ''metadata_release_tag'']
     @ (if has_metadata then [] else [''snapshot_id''])
     @ [''state'', ''effective_tag'']"

definition snapshot_release_type :: "bool \<Rightarrow> py_error + yaml" where
  "snapshot_release_type has_metadata =
     (if ''snapshot'' \<in> set (snapshot_path_locals has_metadata) then Inl NameError
      else Inr YNull)"

text \<open>
  The release tag the snapshot path takes from the metadata it has read, or from the
  branch name when the metadata is falsy.
\<close>

definition metadata_release_tag_of :: "yaml \<Rightarrow> string \<Rightarrow> py_error + yaml" where
  "metadata_release_tag_of metadata snapshot_branch_name =
     (if truthy metadata
      then and_then (py_get metadata ''repository'' (YMap [])) (\<lambda>repo.
             py_get repo ''release_tag'' YNull)
      else
        (let snap_id = replace snapshot_branch_name SNAPSHOT_BRANCH_PREFIX []
         in if CHR ''-'' \<in> set snap_id
            then (case py_split (CHR ''-'') snap_id of
                    [] \<Rightarrow> Inl IndexError
                  | first # parts \<Rightarrow> Inr (YStr first))
            else Inr (YStr snap_id)))"

definition get_current_release_info :: "GitHubClient \<Rightarrow> PyLib \<Rightarrow> py_error + ReleaseInfoResult" where
  "get_current_release_info gh lib =
     and_then (read_release_plan_with_validation gh lib) (\<lambda>(plan, config_err).
       (case config_err of
          Some err \<Rightarrow>
            Inr \<lparr>success = False, release_tag = YNull, state = None, snapshot_branch = None,
                  source = None, config_error = Some err, release_issue_number = None,
                  release_type = YNull\<rparr>
        | None \<Rightarrow>
            and_then (py_item plan ''repository'') (\<lambda>repo_a.
            and_then (py_item repo_a ''target_release_tag'') (\<lambda>plan_release_tag.
            and_then (py_item plan ''repository'') (\<lambda>repo_b.
            and_then (py_get repo_b ''target_release_type'' YNull) (\<lambda>plan_release_type.
              if tag_exists gh (py_str lib plan_release_tag)
              then
                and_then (find_release_issue gh plan_release_tag) (\<lambda>issue_number.
                  Inr \<lparr>success = True, release_tag = plan_release_tag, state = Some PUBLISHED,
                        snapshot_branch = None, source = Some ''tag'', config_error = None,
                        release_issue_number = issue_number,
                        release_type = plan_release_type\<rparr>)
              else
                (case list_branches gh
                        (SNAPSHOT_BRANCH_PREFIX @ py_str lib plan_release_tag @ ''-*'') of
                   first_branch # others \<Rightarrow>
                     (let snapshot_branch_name = name first_branch
                      in and_then (read_release_metadata gh lib snapshot_branch_name) (\<lambda>metadata.
                         and_then (metadata_release_tag_of metadata snapshot_branch_name)
                           (\<lambda>metadata_release_tag.
                        (let derived =
                               (if draft_release_exists gh
                                     (py_str lib (py_or metadata_release_tag plan_release_tag))
                                then DRAFT_READY else SNAPSHOT_ACTIVE);
                             effective_tag = py_or metadata_release_tag plan_release_tag
                         in and_then (find_release_issue gh effective_tag) (\<lambda>issue_number.
                            and_then (snapshot_release_type (truthy metadata)) (\<lambda>rtype.
                              Inr \<lparr>success = True, release_tag = effective_tag,
                                    state = Some derived,
                                    snapshot_branch = Some snapshot_branch_name,
                                    source = Some ''release-metadata.yaml'', config_error = None,
                                    release_issue_number = issue_number,
                                    release_type = rtype\<rparr>))))))
                 | [] \<Rightarrow>
                     and_then (type_and_lower_differs plan_release_type) (\<lambda>differs.
                       (let derived = (if differs then PLANNED else NOT_PLANNED)
                        in and_then (find_release_issue gh plan_release_tag) (\<lambda>issue_number.
                             Inr \<lparr>success = True, release_tag = plan_release_tag,
                                   state = Some derived, snapshot_branch = None,
                                   source = Some ''release-plan.yaml'', config_error = None,
                                   release_issue_number = issue_number,
                                   release_type = plan_release_type\<rparr>))))))))))"

subsection \<open>The manager as an object\<close>




section \<open>Worked examples: repositories held in memory\<close>

text \<open>
  A client over explicit lists of tags, branches, draft tags, files, releases and
  issues. The only branch patterns the components build are a literal followed by
  \<^verbatim>\<open>*\<close>, which is how the listing treats its pattern. The library of the examples
  loads exactly the documents of a table, raises ValueError on the texts of a list
  (texts with a date scalar that is no date) and rejects every other text with a YAML
  error.
\<close>

definition memory_client ::
  "string list \<Rightarrow> Branch list \<Rightarrow> string list \<Rightarrow> ((string \<times> string) \<times> string) list
     \<Rightarrow> Release list \<Rightarrow> Issue list \<Rightarrow> GitHubClient" where
  "memory_client tags branches drafts files releases issues =
     \<lparr>tag_exists = (\<lambda>t. t \<in> set tags),
      list_branches = (\<lambda>pattern. filter (\<lambda>b. prefix (butlast pattern) (name b)) branches),
      draft_release_exists = (\<lambda>t. t \<in> set drafts),
      get_file_content = (\<lambda>path ref. map_of files (path, ref)),
      get_releases = (\<lambda>include_drafts. filter (\<lambda>r. include_drafts \<or> \<not> draft r) releases),
      get_branch_creation_time = (\<lambda>b. None),
      find_pr_for_branch = (\<lambda>b. None),
      search_issues = (\<lambda>labels issue_state. issues)\<rparr>"

definition table_lib :: "(string \<times> yaml) list \<Rightarrow> string list \<Rightarrow> PyLib" where
  "table_lib docs bad_dates =
     \<lparr>safe_load = (\<lambda>text. case map_of docs text of
                                Some v \<Rightarrow> Loaded v
                              | None \<Rightarrow> if text \<in> set bad_dates then Raises ValueError
                                        else YAMLError ''could not parse''),
      format_value = (\<lambda>v. ''?''),
      fromisoformat = (\<lambda>text. None),
      now = 0\<rparr>"

definition plan_doc :: "string \<Rightarrow> string \<Rightarrow> yaml" where
  "plan_doc tag rtype =
     YMap [(YStr ''repository'',
            YMap [(YStr ''target_release_tag'', YStr tag),
                  (YStr ''target_release_type'', YStr rtype)])]"

definition metadata_doc :: "string \<Rightarrow> string \<Rightarrow> string \<Rightarrow> string \<Rightarrow> yaml" where
  "metadata_doc tag rtype api version =
     YMap [(YStr ''repository'',
            YMap [(YStr ''release_tag'', YStr tag), (YStr ''release_type'', YStr rtype)]),
           (YStr ''apis'',
            YList [YMap [(YStr ''api_name'', YStr api), (YStr ''api_version'', YStr version)]])]"

definition example_docs :: "(string \<times> yaml) list" where
  "example_docs =
     [(''plan rc'', plan_doc ''r4.1'' ''pre-release-rc''),
      (''plan none'', plan_doc ''r4.1'' ''None''),
      (''plan empty type'', plan_doc ''r4.1'' []),
      (''meta rc1'', metadata_doc ''r3.1'' ''pre-release-rc'' ''qod'' ''3.1.0-rc.1''),
      (''meta rc3'', metadata_doc ''r3.2'' ''pre-release-rc'' ''qod'' ''3.2.0-rc.3''),
      (''meta snapshot'', metadata_doc ''r4.1'' ''pre-release-rc'' ''qod'' ''3.3.0-rc.4'')]"

definition example_bad_dates :: "string list" where
  "example_bad_dates = [''{apis: [], d: 2001-13-40}'', ''d: 2001-13-40'']"

definition example_lib :: PyLib where
  "example_lib = table_lib example_docs example_bad_dates"

definition snapshot_branch_r41 :: Branch where
  "snapshot_branch_r41 = \<lparr>name = ''release-snapshot/r4.1-abc1234'', sha = ''abc1234def''\<rparr>"

definition published_release :: "string \<Rightarrow> Release" where
  "published_release tag =
     \<lparr>tag_name = tag, release_name = tag, draft = False, prerelease = True, html_url = []\<rparr>"

text \<open>A repository where the tag, a snapshot branch, a draft release and a plan all exist.\<close>

definition repo_everything :: GitHubClient where
  "repo_everything =
     memory_client [''r4.1''] [snapshot_branch_r41] [''r4.1'']
       [((''release-plan.yaml'', ''main''), ''plan rc'')] [] []"

text \<open>Two repositories that differ only in artifacts state derivation for r4.1 never reads.\<close>

definition repo_planned :: GitHubClient where
  "repo_planned = memory_client [] [] [] [((''release-plan.yaml'', ''main''), ''plan rc'')] [] []"


text \<open>
  Four published releases: two with readable metadata (extensions 1 and 3 of the rc
  series of major 3), one without the file and one whose file does not parse.
\<close>

definition repo_history :: GitHubClient where
  "repo_history =
     memory_client [''r3.1'', ''r3.2'', ''r3.3'', ''r3.4''] [] []
       [((''release-metadata.yaml'', ''r3.1''), ''meta rc1''),
        ((''release-metadata.yaml'', ''r3.2''), ''meta rc3''),
        ((''release-metadata.yaml'', ''r3.4''), ''{{invalid yaml::'')]
       [published_release ''r3.1'', published_release ''r3.3'', published_release ''r3.2'',
        published_release ''r3.4'']
       []"

text \<open>No tag and no branch; the plan names r4.1 with an empty release type.\<close>

definition repo_empty_type :: GitHubClient where
  "repo_empty_type =
     memory_client [] [] [] [((''release-plan.yaml'', ''main''), ''plan empty type'')] [] []"

text \<open>No tag and no branch; the plan names r4.1 with the release type None.\<close>

definition repo_type_none :: GitHubClient where
  "repo_type_none =
     memory_client [] [] [] [((''release-plan.yaml'', ''main''), ''plan none'')] [] []"

text \<open>No release plan at all.\<close>

definition repo_no_plan :: GitHubClient where
  "repo_no_plan = memory_client [] [] [] [] [] []"

text \<open>
  A valid plan and a snapshot branch for r4.1 with a metadata document on the branch
  that names a release type.
\<close>

definition repo_snapshot :: GitHubClient where
  "repo_snapshot =
     memory_client [] [snapshot_branch_r41] []
       [((''release-plan.yaml'', ''main''), ''plan rc''),
        ((''release-metadata.yaml'', ''release-snapshot/r4.1-abc1234''), ''meta snapshot'')]
       [] []"

text \<open>
  Two published releases, the second with a metadata file whose date scalar is no date;
  and a snapshot branch for r4.1 with such a metadata file.
\<close>

definition repo_bad_date_history :: GitHubClient where
  "repo_bad_date_history =
     memory_client [''r3.1'', ''r3.5''] [] []
       [((''release-metadata.yaml'', ''r3.1''), ''meta rc1''),
        ((''release-metadata.yaml'', ''r3.5''), ''{apis: [], d: 2001-13-40}'')]
       [published_release ''r3.1'', published_release ''r3.5''] []"

definition repo_snapshot_bad_date :: GitHubClient where
  "repo_snapshot_bad_date =
     memory_client [] [snapshot_branch_r41] []
       [((''release-plan.yaml'', ''main''), ''plan rc''),
        ((''release-metadata.yaml'', ''release-snapshot/r4.1-abc1234''),
         ''{apis: [], d: 2001-13-40}'')]
       [] []"


section \<open>The derivation as the specification words it\<close>

text \<open>
  This definition follows the four steps of the specification, not the code: the plan
  counts when the document exists, parses as a mapping and its
  \<^verbatim>\<open>repository.target_release_tag\<close> equals the tag, and it gives \<^verbatim>\<open>Planned\<close> when
  \<^verbatim>\<open>repository.target_release_type\<close> is present and is not the string \<^verbatim>\<open>none\<close> in any
  capitalisation.
\<close>

definition is_none_literal :: "yaml \<Rightarrow> bool" where
  "is_none_literal t = (case t of YStr s \<Rightarrow> py_lower s = ''none'' | _ \<Rightarrow> False)"

definition claimed_plan_state :: "GitHubClient \<Rightarrow> PyLib \<Rightarrow> string \<Rightarrow> ReleaseState" where
  "claimed_plan_state gh lib tag =
     (case get_file_content gh RELEASE_PLAN_FILE ''main'' of
        None \<Rightarrow> NOT_PLANNED
      | Some content \<Rightarrow>
          (case safe_load lib content of
             Loaded (YMap entries) \<Rightarrow>
               (case map_of entries (YStr ''repository'') of
                  Some (YMap repo) \<Rightarrow>
                    if map_of repo (YStr ''target_release_tag'') = Some (YStr tag)
                    then (case map_of repo (YStr ''target_release_type'') of
                            None \<Rightarrow> NOT_PLANNED
                          | Some t \<Rightarrow> if is_none_literal t then NOT_PLANNED else PLANNED)
                    else NOT_PLANNED
                | _ \<Rightarrow> NOT_PLANNED)
           | _ \<Rightarrow> NOT_PLANNED))"

definition claimed_derive_state :: "GitHubClient \<Rightarrow> PyLib \<Rightarrow> string \<Rightarrow> ReleaseState" where
  "claimed_derive_state gh lib tag =
     (if tag_exists gh tag then PUBLISHED
      else if list_branches gh (SNAPSHOT_BRANCH_PREFIX @ tag @ ''-*'') \<noteq> []
           then (if draft_release_exists gh tag then DRAFT_READY else SNAPSHOT_ACTIVE)
           else claimed_plan_state gh lib tag)"

section \<open>Basic facts\<close>

lemma and_then_Inr [simp]: "and_then (Inr x) f = f x"
  by (simp add: and_then_def)

lemma and_then_Inl [simp]: "and_then (Inl e) f = Inl e"
  by (simp add: and_then_def)

lemma py_max_eq_Max: "xs \<noteq> [] \<Longrightarrow> py_max xs = Max (set xs)"
proof -
  assume "xs \<noteq> []"
  then obtain y ys where xs: "xs = y # ys" by (cases xs) auto
  have "foldl max y ys = fold max ys y"
    by (simp add: foldl_conv_fold max.commute)
  moreover have "Max (set (y # ys)) = fold max ys y"
    by (rule Max.set_eq_fold)
  ultimately show ?thesis
    by (simp add: xs py_max_def)
qed

lemma yaml_error_reads_null:
  "missing_or_yaml_error gh lib path ref \<Longrightarrow> read_yaml_file gh lib path ref = Inr YNull"
  by (auto simp: missing_or_yaml_error_def read_yaml_file_def
           split: option.splits load_result.splits)

lemma loader_exception_leaves_read:
  "get_file_content gh path ref = Some content \<Longrightarrow> content \<noteq> [] \<Longrightarrow>
   safe_load lib content = Raises x \<Longrightarrow> read_yaml_file gh lib path ref = Inl x"
  by (simp add: read_yaml_file_def)

lemma scan_releases_skip:
  assumes "missing_or_yaml_error gh lib ''release-metadata.yaml'' (tag_name r)"
  shows "scan_releases gh lib a v s (before @ r # after) acc =
         scan_releases gh lib a v s (before @ after) acc"
proof (induction before arbitrary: acc)
  case Nil
  from assms show ?case
    by (simp add: vc_read_release_metadata_def yaml_error_reads_null)
next
  case (Cons b before)
  then show ?case
    by (simp add: and_then_def split: sum.splits)
qed

lemma scan_releases_all_skipped:
  assumes "\<forall>x \<in> set rs. missing_or_yaml_error gh lib ''release-metadata.yaml'' (tag_name x)"
  shows "scan_releases gh lib a v s rs acc = Inr acc"
  using assms
  by (induction rs) (simp_all add: vc_read_release_metadata_def yaml_error_reads_null)

lemma find_existing_extensions_skips_yaml_error:
  assumes "get_releases gh False = before @ r # after"
    and "missing_or_yaml_error gh lib ''release-metadata.yaml'' (tag_name r)"
  shows "find_existing_extensions gh lib a v s = scan_releases gh lib a v s (before @ after) []"
  using assms by (simp add: find_existing_extensions_def scan_releases_skip)

lemma validation_outcome:
  "(\<exists>plan. read_release_plan_with_validation gh lib = Inr (plan, None)) \<longleftrightarrow>
     (\<exists>content entries repo t.
        get_file_content gh RELEASE_PLAN_FILE ''main'' = Some content \<and>
        safe_load lib content = Loaded (YMap entries) \<and>
        map_of entries (YStr ''repository'') = Some (YMap repo) \<and>
        map_of repo (YStr ''target_release_tag'') = Some t \<and> truthy t)"
  by (auto simp: read_release_plan_with_validation_def Let_def
           split: option.splits load_result.splits yaml.splits if_splits)

lemma validation_error_types:
  "read_release_plan_with_validation gh lib = Inr (plan, Some e) \<Longrightarrow>
     error_type e \<in> {''missing_file'', ''malformed_yaml'', ''missing_field''}"
  by (auto simp: read_release_plan_with_validation_def Let_def
           split: option.splits load_result.splits yaml.splits if_splits)

lemma digit_char_is_digit: "d < 10 \<Longrightarrow> is_digit (digit_char d)"
proof -
  assume "d < 10"
  then have "d \<in> {0, 1, 2, 3, 4, 5, 6, 7, 8, 9}" by auto
  then show ?thesis
    by (auto simp: digit_char_def is_digit_def)
qed

lemma digit_val_digit_char: "d < 10 \<Longrightarrow> digit_val (digit_char d) = d"
proof -
  assume "d < 10"
  then have "d \<in> {0, 1, 2, 3, 4, 5, 6, 7, 8, 9}" by auto
  then show ?thesis
    by (auto simp: digit_char_def digit_val_def)
qed

lemma str_nat_digits: "list_all is_digit (str_nat n)"
proof (induction n rule: str_nat.induct)
  case (1 n)
  show ?case
  proof (cases "n < 10")
    case True
    then show ?thesis by (subst str_nat.simps) (simp add: digit_char_is_digit)
  next
    case False
    with 1 show ?thesis
      by (subst str_nat.simps) (simp add: digit_char_is_digit)
  qed
qed

lemma int_of_digits_snoc:
  "int_of_digits (xs @ [c]) = 10 * int_of_digits xs + int (digit_val c)"
  by (simp add: int_of_digits_def)

lemma int_of_digits_str_nat: "int_of_digits (str_nat n) = int n"
proof (induction n rule: str_nat.induct)
  case (1 n)
  show ?case
  proof (cases "n < 10")
    case True
    then show ?thesis
      by (subst str_nat.simps) (simp add: int_of_digits_def digit_val_digit_char)
  next
    case False
    then have "str_nat n = str_nat (n div 10) @ [digit_char (n mod 10)]"
      by (subst str_nat.simps) simp
    with 1 False show ?thesis
      by (simp add: int_of_digits_snoc digit_val_digit_char) presburger
  qed
qed

lemma str_nat_inject: "str_nat a = str_nat b \<Longrightarrow> a = b"
proof -
  assume "str_nat a = str_nat b"
  then have "int_of_digits (str_nat a) = int_of_digits (str_nat b)" by simp
  then show "a = b" by (simp add: int_of_digits_str_nat)
qed

lemma int_of_digits_nonneg: "0 \<le> int_of_digits s"
  by (simp add: int_of_digits_def)

lemma span_run:
  assumes "list_all P xs" and "r = [] \<or> \<not> P (hd r)"
  shows "span P (xs @ r) = (xs, r)"
proof -
  from assms(1) have all: "\<And>x. x \<in> set xs \<Longrightarrow> P x"
    by (simp add: list_all_iff)
  from assms(2) have "takeWhile P r = []" and "dropWhile P r = r"
    by (cases r; simp)+
  with all show ?thesis
    by (simp add: span_def)
qed

lemma separators_not_digit:
  "\<not> is_digit CHR ''.''" "\<not> is_digit CHR ''-''" "\<not> is_digit (CHR 0x0A)"
  by (simp_all add: is_digit_def)

lemma dot_not_lower: "\<not> is_lower CHR ''.''"
  by (simp add: is_lower_def)

lemma match_triple_ok:
  assumes "digits M" and "digits m" and "digits p" and "r = [] \<or> \<not> is_digit (hd r)"
  shows "match_triple (M @ ''.'' @ m @ ''.'' @ p @ r) = Some (M, m, p, r)"
proof -
  from assms have M: "list_all is_digit M" "M \<noteq> []" and m: "list_all is_digit m" "m \<noteq> []"
    and p: "list_all is_digit p" "p \<noteq> []"
    by (simp_all add: digits_def)
  have s1: "span is_digit (M @ CHR ''.'' # m @ CHR ''.'' # p @ r) =
            (M, CHR ''.'' # m @ CHR ''.'' # p @ r)"
    using M(1) by (rule span_run) (simp add: separators_not_digit)
  have s2: "span is_digit (m @ CHR ''.'' # p @ r) = (m, CHR ''.'' # p @ r)"
    using m(1) by (rule span_run) (simp add: separators_not_digit)
  have s3: "span is_digit (p @ r) = (p, r)"
    using p(1) assms(4) by (rule span_run)
  show ?thesis
    using M(2) m(2) p(2) by (simp add: match_triple_def s1 s2 s3)
qed

lemma match_suffix_ok:
  assumes "lowers st" and "digits e" and "at_end r"
  shows "match_suffix (''-'' @ st @ ''.'' @ e @ r) = Some (st, e)"
proof -
  from assms have st: "list_all is_lower st" "st \<noteq> []" and e: "list_all is_digit e" "e \<noteq> []"
    by (simp_all add: digits_def lowers_def)
  have s1: "span is_lower (st @ CHR ''.'' # e @ r) = (st, CHR ''.'' # e @ r)"
    using st(1) by (rule span_run) (simp add: dot_not_lower)
  have "r = [] \<or> \<not> is_digit (hd r)"
    using assms(3) by (auto simp: at_end_def separators_not_digit)
  with e(1) have s2: "span is_digit (e @ r) = (e, r)"
    by (rule span_run)
  show ?thesis
    using st(2) e(2) assms(3) by (simp add: match_suffix_def s1 s2)
qed

lemma match_suffix_empty: "match_suffix [] = None"
  by (simp add: match_suffix_def)

lemma digits_one: "digits ''1''"
  by (simp add: digits_def is_digit_def)

lemma digits_not_wip: "digits M \<Longrightarrow> M @ rest \<noteq> ''wip''"
  by (cases M) (auto simp: digits_def is_digit_def)

lemma url_with_status:
  assumes "digits M" and "digits m" and "digits p" and "lowers st"
  shows "calculate_url_version (M @ ''.'' @ m @ ''.'' @ p @ ''-'' @ st @ ''.1'') =
           (if int_of_digits M = 0 then ''v0.'' @ m else ''v'' @ str_int (int_of_digits M)) @ st @ ''1''"
proof -
  have suf: "match_suffix (''-'' @ st @ ''.'' @ ''1'' @ []) = Some (st, ''1'')"
    using assms(4) digits_one by (rule match_suffix_ok) (simp add: at_end_def)
  have "match_triple (M @ ''.'' @ m @ ''.'' @ p @ (''-'' @ st @ ''.1'')) =
          Some (M, m, p, ''-'' @ st @ ''.1'')"
    using assms(1-3) by (rule match_triple_ok) (simp add: separators_not_digit)
  with suf have "match_url_pattern (M @ ''.'' @ m @ ''.'' @ p @ ''-'' @ st @ ''.1'') =
          Some (M, m, p, Some (st, ''1''))"
    by (simp add: match_url_pattern_def)
  moreover have "M @ ''.'' @ m @ ''.'' @ p @ ''-'' @ st @ ''.1'' \<noteq> ''wip''"
    using assms(1) by (rule digits_not_wip)
  moreover have "st \<noteq> []"
    using assms(4) by (simp add: lowers_def)
  ultimately show ?thesis
    by (simp add: calculate_url_version_def Let_def)
qed

lemma url_of_base:
  assumes "digits M" and "digits m" and "digits p"
  shows "calculate_url_version (M @ ''.'' @ m @ ''.'' @ p) =
           (if int_of_digits M = 0 then ''v0.'' @ m else ''v'' @ str_int (int_of_digits M))"
proof -
  have "match_triple (M @ ''.'' @ m @ ''.'' @ p @ []) = Some (M, m, p, [])"
    using assms by (rule match_triple_ok) simp
  then have "match_url_pattern (M @ ''.'' @ m @ ''.'' @ p) = Some (M, m, p, None)"
    by (simp add: match_url_pattern_def match_suffix_empty at_end_def)
  moreover have "M @ ''.'' @ m @ ''.'' @ p \<noteq> ''wip''"
    using assms(1) by (rule digits_not_wip)
  ultimately show ?thesis
    by (simp add: calculate_url_version_def Let_def)
qed

lemma version_pattern_ok:
  assumes "digits M" and "digits m" and "digits p" and "lowers st" and "digits e"
  shows "match_VERSION_PATTERN (M @ ''.'' @ m @ ''.'' @ p @ ''-'' @ st @ ''.'' @ e) =
           Some (M @ ''.'' @ m @ ''.'' @ p, st, e)"
proof -
  have suf: "match_suffix (''-'' @ st @ ''.'' @ e @ []) = Some (st, e)"
    using assms(4,5) by (rule match_suffix_ok) (simp add: at_end_def)
  have "match_triple (M @ ''.'' @ m @ ''.'' @ p @ (''-'' @ st @ ''.'' @ e)) =
          Some (M, m, p, ''-'' @ st @ ''.'' @ e)"
    using assms(1-3) by (rule match_triple_ok) (simp add: separators_not_digit)
  with suf show ?thesis
    by (simp add: match_VERSION_PATTERN_def)
qed

lemma str_int_nat: "0 \<le> a \<Longrightarrow> str_int a = str_nat (nat a)"
  by (simp add: str_int_def)

lemma initial_base_not_stable: "''v0.'' @ m \<noteq> ''v'' @ str_nat k"
proof
  assume "''v0.'' @ m = ''v'' @ str_nat k"
  then have "str_nat k = ''0.'' @ m" by simp
  then have "CHR ''.'' \<in> set (str_nat k)" by (simp only: set_append) simp
  moreover have "\<forall>c \<in> set (str_nat k). is_digit c"
    using str_nat_digits [of k] by (simp add: list_all_iff)
  ultimately show False
    using separators_not_digit(1) by blast
qed

lemma url_base_eq:
  assumes "0 \<le> a" and "0 \<le> b"
  shows "((if a = 0 then ''v0.'' @ m else ''v'' @ str_int a) =
          (if b = 0 then ''v0.'' @ m' else ''v'' @ str_int b)) \<longleftrightarrow>
         (a = 0 \<and> b = 0 \<and> m = m') \<or> (1 \<le> a \<and> b = a)"
proof -
  have inj: "str_nat (nat a) = str_nat (nat b) \<longleftrightarrow> a = b"
    using assms str_nat_inject [of "nat a" "nat b"] by auto
  have ne1: "''v0.'' @ m \<noteq> ''v'' @ str_nat (nat b)"
    and ne2: "''v'' @ str_nat (nat a) \<noteq> ''v0.'' @ m'"
    using initial_base_not_stable [of m "nat b"] initial_base_not_stable [of m' "nat a"]
    by (simp_all add: eq_commute)
  show ?thesis
  proof (cases "a = 0")
    case a0: True
    show ?thesis
    proof (cases "b = 0")
      case True
      with a0 show ?thesis by simp
    next
      case False
      with a0 assms ne1 show ?thesis by (simp add: str_int_nat)
    qed
  next
    case a1: False
    show ?thesis
    proof (cases "b = 0")
      case True
      with a1 assms ne2 show ?thesis by (simp add: str_int_nat)
    next
      case False
      with a1 assms inj show ?thesis by (auto simp: str_int_nat)
    qed
  qed
qed

lemma find_in_issues_string: "\<exists>n. find_in_issues (YStr t) issues = Inr n"
  by (induction issues) (simp_all add: Let_def)

lemma find_release_issue_string: "\<exists>n. find_release_issue gh (YStr t) = Inr n"
  by (simp add: find_release_issue_def find_in_issues_string)

section \<open>Properties of the version calculator\<close>

text \<open>
  C1. Take an existing version \<open>M.m.p-st.e\<close> and a target base version \<open>M'.m'.p'\<close>
  with the same status \<open>st\<close>, every numeric component a non-empty run of digits and
  the status a non-empty run of lower-case letters. \<^verbatim>\<open>_parse_extension\<close> returns the
  extension \<open>e\<close> exactly when the two base versions have the same URL version, and
  \<^verbatim>\<open>None\<close> otherwise. The URL version of \<open>M.m.p\<close> is \<^verbatim>\<open>v0.\<close> followed by the minor
  as it is written when the major is 0, and \<^verbatim>\<open>v\<close> followed by the major otherwise.
  So the two versions collide iff both majors are 0 and the minors are written alike
  (the patch plays no part), or the major is at least 1 and the majors are equal
  (neither minor nor patch plays a part). In particular 3.1.0-rc.5 collides with the
  target 3.2.0 rc, and 0.4.0-alpha.1 collides with the target 0.4.1 alpha but not with
  the target 0.5.0 alpha.
\<close>

theorem parse_extension_collision:
  assumes "digits M" and "digits m" and "digits p"
    and "digits M'" and "digits m'" and "digits p'"
    and "lowers st" and "digits e"
  shows "parse_extension (M @ ''.'' @ m @ ''.'' @ p @ ''-'' @ st @ ''.'' @ e)
           (M' @ ''.'' @ m' @ ''.'' @ p') st =
           (if calculate_url_version (M @ ''.'' @ m @ ''.'' @ p) =
               calculate_url_version (M' @ ''.'' @ m' @ ''.'' @ p')
            then Some (int_of_digits e) else None) \<and>
         calculate_url_version (M @ ''.'' @ m @ ''.'' @ p) =
           (if int_of_digits M = 0 then ''v0.'' @ m else ''v'' @ str_int (int_of_digits M)) \<and>
         (calculate_url_version (M @ ''.'' @ m @ ''.'' @ p) =
            calculate_url_version (M' @ ''.'' @ m' @ ''.'' @ p') \<longleftrightarrow>
            (int_of_digits M = 0 \<and> int_of_digits M' = 0 \<and> m = m') \<or>
            (1 \<le> int_of_digits M \<and> int_of_digits M' = int_of_digits M)) \<and>
         parse_extension ''3.1.0-rc.5'' ''3.2.0'' ''rc'' = Some 5 \<and>
         parse_extension ''0.4.0-alpha.1'' ''0.4.1'' ''alpha'' = Some 1 \<and>
         parse_extension ''0.4.0-alpha.1'' ''0.5.0'' ''alpha'' = None"
proof -
  let ?base = "\<lambda>M m. if int_of_digits M = 0 then ''v0.'' @ m
                        else ''v'' @ str_int (int_of_digits M)"
  have b1: "calculate_url_version (M @ ''.'' @ m @ ''.'' @ p) = ?base M m"
    using assms(1-3) by (rule url_of_base)
  have b2: "calculate_url_version (M' @ ''.'' @ m' @ ''.'' @ p') = ?base M' m'"
    using assms(4-6) by (rule url_of_base)
  have u1: "calculate_url_version (M @ ''.'' @ m @ ''.'' @ p @ ''-'' @ st @ ''.1'') =
              ?base M m @ st @ ''1''"
    using assms(1-3,7) by (rule url_with_status)
  have u2: "calculate_url_version (M' @ ''.'' @ m' @ ''.'' @ p' @ ''-'' @ st @ ''.1'') =
              ?base M' m' @ st @ ''1''"
    using assms(4-6,7) by (rule url_with_status)
  have vp: "match_VERSION_PATTERN (M @ ''.'' @ m @ ''.'' @ p @ ''-'' @ st @ ''.'' @ e) =
              Some (M @ ''.'' @ m @ ''.'' @ p, st, e)"
    using assms(1-3,7,8) by (rule version_pattern_ok)
  have same: "(?base M m @ st @ ''1'' = ?base M' m' @ st @ ''1'') = (?base M m = ?base M' m')"
    by (rule append_same_eq)
  have first: "parse_extension (M @ ''.'' @ m @ ''.'' @ p @ ''-'' @ st @ ''.'' @ e)
           (M' @ ''.'' @ m' @ ''.'' @ p') st =
           (if ?base M m = ?base M' m' then Some (int_of_digits e) else None)"
  proof -
    have "parse_extension (M @ ''.'' @ m @ ''.'' @ p @ ''-'' @ st @ ''.'' @ e)
           (M' @ ''.'' @ m' @ ''.'' @ p') st =
           (if ?base M m @ st @ ''1'' = ?base M' m' @ st @ ''1''
            then Some (int_of_digits e) else None)"
      unfolding parse_extension_def vp using u1 u2 by (simp add: Let_def)
    then show ?thesis
      unfolding same .
  qed
  have third: "(?base M m = ?base M' m') \<longleftrightarrow>
            (int_of_digits M = 0 \<and> int_of_digits M' = 0 \<and> m = m') \<or>
            (1 \<le> int_of_digits M \<and> int_of_digits M' = int_of_digits M)"
    using int_of_digits_nonneg int_of_digits_nonneg by (rule url_base_eq)
  have ex1: "parse_extension ''3.1.0-rc.5'' ''3.2.0'' ''rc'' = Some 5" by code_simp
  have ex2: "parse_extension ''0.4.0-alpha.1'' ''0.4.1'' ''alpha'' = Some 1" by code_simp
  have ex3: "parse_extension ''0.4.0-alpha.1'' ''0.5.0'' ''alpha'' = None" by code_simp
  from first third ex1 ex2 ex3 show ?thesis
    unfolding b1 b2 by blast
qed

theorem parse_extension_collision_witness:
  "parse_extension ''3.1.0-rc.5'' ''3.2.0'' ''rc'' = Some 5 \<and>
   calculate_url_version ''3.1.0'' = ''v3'' \<and>
   calculate_url_version ''3.1.0'' = calculate_url_version ''3.2.0''"
proof -
  have d: "digits ''3''" "digits ''1''" "digits ''0''" "digits ''2''" "digits ''5''"
    by (simp_all add: digits_def is_digit_def)
  have l: "lowers ''rc''"
    by (simp add: lowers_def is_lower_def)
  have i: "int_of_digits ''3'' = 3" "int_of_digits ''5'' = 5"
    by (simp_all add: int_of_digits_def digit_val_def)
  have s: "str_int 3 = ''3''"
    by (simp add: str_int_def str_nat.simps digit_char_def)
  note t = parse_extension_collision [OF d(1) d(2) d(3) d(1) d(4) d(3) l d(5)]
  have base: "calculate_url_version ''3.1.0'' = ''v3''"
    using t [THEN conjunct2, THEN conjunct1] by (simp add: i s)
  have same: "calculate_url_version ''3.1.0'' = calculate_url_version ''3.2.0''"
    using t [THEN conjunct2, THEN conjunct2, THEN conjunct1] by (simp add: i)
  have "parse_extension ''3.1.0-rc.5'' ''3.2.0'' ''rc'' =
          (if calculate_url_version ''3.1.0'' = calculate_url_version ''3.2.0''
           then Some 5 else None)"
    using t [THEN conjunct1] by (simp add: i)
  with same have ext: "parse_extension ''3.1.0-rc.5'' ''3.2.0'' ''rc'' = Some 5"
    by (simp only: simp_thms if_True)
  from ext base same show ?thesis by (intro conjI)
qed


text \<open>
  C6. With the status \<^verbatim>\<open>public\<close>, \<^verbatim>\<open>calculate_version\<close> returns the base version
  it was given, unchanged, whatever the repository holds and whatever the API is called.
\<close>

theorem calculate_version_public:
  "calculate_version gh lib api_name target_version ''public'' = Inr target_version"
  by (simp add: calculate_version_def)

text \<open>
  C5. For a status other than \<^verbatim>\<open>public\<close>, once the scan has collected the colliding
  extensions, \<^verbatim>\<open>calculate_version\<close> returns base, hyphen, status, dot and the number
  \<open>n\<close>: one more than the largest collected extension, or 1 when none was collected.
  Gaps are not filled: the extensions 1 and 3 give 4.
\<close>

theorem calculate_version_next_extension:
  assumes "target_status \<noteq> ''public''"
    and "find_existing_extensions gh lib api_name target_version target_status = Inr collected"
  shows "calculate_version gh lib api_name target_version target_status =
           Inr (target_version @ ''-'' @ target_status @ ''.'' @
                str_int (if collected = [] then 1 else Max (set collected) + 1))"
  using assms by (simp add: calculate_version_def py_max_eq_Max)

theorem calculate_version_next_extension_witness:
  "find_existing_extensions repo_history example_lib ''qod'' ''3.3.0'' ''rc'' = Inr [1, 3] \<and>
   calculate_version repo_history example_lib ''qod'' ''3.3.0'' ''rc'' = Inr ''3.3.0-rc.4''"
proof -
  have h1: "''rc'' \<noteq> ''public''" by simp
  have h2: "find_existing_extensions repo_history example_lib ''qod'' ''3.3.0'' ''rc'' = Inr [1, 3]"
    by code_simp
  have n: "str_int (if [1, 3 :: int] = [] then 1 else Max (set [1, 3]) + 1) = ''4''"
    by (simp add: str_int_def str_nat.simps digit_char_def)
  show ?thesis
    using h2 n calculate_version_next_extension [OF h1 h2] by simp
qed

text \<open>
  C7. A published release whose \<^verbatim>\<open>release-metadata.yaml\<close> is missing or cannot be
  parsed should be skipped by \<^verbatim>\<open>find_existing_extensions\<close> without an exception. The
  code does so for a missing file and for a text the loader rejects with
  \<^verbatim>\<open>yaml.YAMLError\<close> (lemma \<open>find_existing_extensions_skips_yaml_error\<close>). It does not
  for a text on which the loader raises another exception, because
  \<^verbatim>\<open>_read_release_metadata\<close> handles \<^verbatim>\<open>yaml.YAMLError\<close> only: with the metadata
  \<^verbatim>\<open>{apis: [], d: 2001-13-40}\<close> on the second of two published releases, the loader
  raises ValueError and the whole scan raises it, although the first release is readable.
\<close>

theorem find_existing_extensions_raises_on_bad_date:
  "get_releases repo_bad_date_history False =
     [published_release ''r3.1'', published_release ''r3.5''] \<and>
   get_file_content repo_bad_date_history ''release-metadata.yaml'' ''r3.5'' =
     Some ''{apis: [], d: 2001-13-40}'' \<and>
   safe_load example_lib ''{apis: [], d: 2001-13-40}'' = Raises ValueError \<and>
   find_existing_extensions repo_bad_date_history example_lib ''qod'' ''3.3.0'' ''rc'' =
     Inl ValueError"
  by code_simp

section \<open>Properties of state derivation\<close>

text \<open>
  C2. When the tag \<open>tag\<close> exists, \<^verbatim>\<open>derive_state\<close> returns \<^verbatim>\<open>PUBLISHED\<close>,
  whatever snapshot branches, draft releases and release plan the repository also has.
\<close>

theorem derive_state_published:
  "tag_exists gh tag \<Longrightarrow> derive_state gh lib tag = Inr PUBLISHED"
  by (simp add: derive_state_def)

theorem derive_state_published_witness:
  "tag_exists repo_everything ''r4.1'' \<and>
   list_branches repo_everything ''release-snapshot/r4.1-*'' \<noteq> [] \<and>
   draft_release_exists repo_everything ''r4.1'' \<and>
   derive_state repo_everything example_lib ''r4.1'' = Inr PUBLISHED"
proof -
  have h: "tag_exists repo_everything ''r4.1''"
    by (simp add: repo_everything_def memory_client_def)
  have "list_branches repo_everything ''release-snapshot/r4.1-*'' \<noteq> []"
    by (simp add: repo_everything_def memory_client_def snapshot_branch_r41_def)
  moreover have "draft_release_exists repo_everything ''r4.1''"
    by (simp add: repo_everything_def memory_client_def)
  ultimately show ?thesis
    using h derive_state_published [OF h, of example_lib] by simp
qed

text \<open>
  C3, as the specification words it, fails on a plan whose
  \<^verbatim>\<open>target_release_type\<close> is present and empty: no tag, no snapshot branch, the plan
  names the tag, the type is the empty string, which is not the string \<^verbatim>\<open>none\<close>. The
  specification's derivation gives \<^verbatim>\<open>Planned\<close>; the code tests the type for truth first
  and returns \<^verbatim>\<open>NOT_PLANNED\<close>.
\<close>

theorem derive_state_empty_type_counterexample:
  "\<not> tag_exists repo_empty_type ''r4.1'' \<and>
   claimed_derive_state repo_empty_type example_lib ''r4.1'' = PLANNED \<and>
   derive_state repo_empty_type example_lib ''r4.1'' = Inr NOT_PLANNED"
  by code_simp

text \<open>
  C3, amended. For a tag that does not exist: if a branch matches the snapshot pattern
  of the tag, \<^verbatim>\<open>derive_state\<close> returns \<^verbatim>\<open>DRAFT_READY\<close> when a draft release exists
  for the tag and \<^verbatim>\<open>SNAPSHOT_ACTIVE\<close> otherwise. If no branch matches, it returns
  \<^verbatim>\<open>NOT_PLANNED\<close> when the release plan is missing, when the loader rejects it with
  \<^verbatim>\<open>yaml.YAMLError\<close>, when it loads to a falsy value, when it is a mapping without a
  \<^verbatim>\<open>repository\<close> entry, and when \<^verbatim>\<open>repository\<close> is a mapping whose
  \<^verbatim>\<open>target_release_tag\<close> is not the tag. When it is the tag, the result is
  \<^verbatim>\<open>PLANNED\<close> for a \<^verbatim>\<open>target_release_type\<close> that is a non-empty string other than
  \<^verbatim>\<open>none\<close> in any capitalisation, and \<^verbatim>\<open>NOT_PLANNED\<close> when the type is that string,
  is absent, or is any falsy value. The theorem says nothing of a plan on which the
  loader raises an exception other than \<^verbatim>\<open>yaml.YAMLError\<close>, of a truthy document that
  is not a mapping, of a \<^verbatim>\<open>repository\<close> entry that is not a mapping, or of a truthy
  type that is not a string.
\<close>

theorem derive_state_unpublished:
  assumes "\<not> tag_exists gh tag"
  shows "(list_branches gh (SNAPSHOT_BRANCH_PREFIX @ tag @ ''-*'') \<noteq> [] \<longrightarrow>
            derive_state gh lib tag =
              Inr (if draft_release_exists gh tag then DRAFT_READY else SNAPSHOT_ACTIVE)) \<and>
         (list_branches gh (SNAPSHOT_BRANCH_PREFIX @ tag @ ''-*'') = [] \<longrightarrow>
            (missing_or_yaml_error gh lib RELEASE_PLAN_FILE ''main'' \<longrightarrow>
               derive_state gh lib tag = Inr NOT_PLANNED) \<and>
            (\<forall>plan. read_release_plan gh lib = Inr plan \<longrightarrow> \<not> truthy plan \<longrightarrow>
               derive_state gh lib tag = Inr NOT_PLANNED) \<and>
            (\<forall>entries. read_release_plan gh lib = Inr (YMap entries) \<longrightarrow>
               map_of entries (YStr ''repository'') = None \<longrightarrow>
               derive_state gh lib tag = Inr NOT_PLANNED) \<and>
            (\<forall>entries repo. read_release_plan gh lib = Inr (YMap entries) \<longrightarrow>
               map_of entries (YStr ''repository'') = Some (YMap repo) \<longrightarrow>
               (map_of repo (YStr ''target_release_tag'') \<noteq> Some (YStr tag) \<longrightarrow>
                  derive_state gh lib tag = Inr NOT_PLANNED) \<and>
               (map_of repo (YStr ''target_release_tag'') = Some (YStr tag) \<longrightarrow>
                  (\<forall>s. map_of repo (YStr ''target_release_type'') = Some (YStr s) \<longrightarrow>
                     derive_state gh lib tag =
                       Inr (if s \<noteq> [] \<and> py_lower s \<noteq> ''none'' then PLANNED
                            else NOT_PLANNED)) \<and>
                  (map_of repo (YStr ''target_release_type'') = None \<longrightarrow>
                     derive_state gh lib tag = Inr NOT_PLANNED) \<and>
                  (\<forall>t. map_of repo (YStr ''target_release_type'') = Some t \<longrightarrow>
                     \<not> truthy t \<longrightarrow> derive_state gh lib tag = Inr NOT_PLANNED))))"
  using assms
  by (auto simp: derive_state_def Let_def py_get_def yaml_error_reads_null
                 read_release_plan_def type_and_lower_differs_def type_and_lower_equals_def
           split: option.splits)

theorem derive_state_unpublished_witness:
  "derive_state repo_planned example_lib ''r4.1'' = Inr PLANNED \<and>
   derive_state repo_empty_type example_lib ''r4.1'' = Inr NOT_PLANNED"
proof -
  have t1: "\<not> tag_exists repo_planned ''r4.1''"
    by (simp add: repo_planned_def memory_client_def)
  have b1: "list_branches repo_planned (SNAPSHOT_BRANCH_PREFIX @ ''r4.1'' @ ''-*'') = []"
    by (simp add: repo_planned_def memory_client_def)
  have p1: "read_release_plan repo_planned example_lib =
            Inr (YMap [(YStr ''repository'',
                        YMap [(YStr ''target_release_tag'', YStr ''r4.1''),
                              (YStr ''target_release_type'', YStr ''pre-release-rc'')])])"
    by code_simp
  have r1: "map_of [(YStr ''repository'',
                     YMap [(YStr ''target_release_tag'', YStr ''r4.1''),
                           (YStr ''target_release_type'', YStr ''pre-release-rc'')])]
              (YStr ''repository'') =
            Some (YMap [(YStr ''target_release_tag'', YStr ''r4.1''),
                        (YStr ''target_release_type'', YStr ''pre-release-rc'')])"
    by simp
  have g1: "map_of [(YStr ''target_release_tag'', YStr ''r4.1''),
                    (YStr ''target_release_type'', YStr ''pre-release-rc'')]
              (YStr ''target_release_tag'') = Some (YStr ''r4.1'')"
    by simp
  have y1: "map_of [(YStr ''target_release_tag'', YStr ''r4.1''),
                    (YStr ''target_release_type'', YStr ''pre-release-rc'')]
              (YStr ''target_release_type'') = Some (YStr ''pre-release-rc'')"
    by simp
  note plan1 = derive_state_unpublished [OF t1, of example_lib, THEN conjunct2, THEN mp, OF b1,
      THEN conjunct2, THEN conjunct2, THEN conjunct2, THEN spec, THEN spec, THEN mp, OF p1,
      THEN mp, OF r1, THEN conjunct2, THEN mp, OF g1]
  have low: "py_lower ''pre-release-rc'' = ''pre-release-rc''"
    by (simp add: py_lower_def lower_char_def)
  have "derive_state repo_planned example_lib ''r4.1'' =
          Inr (if ''pre-release-rc'' \<noteq> [] \<and> py_lower ''pre-release-rc'' \<noteq> ''none''
               then PLANNED else NOT_PLANNED)"
    by (rule plan1 [THEN conjunct1, THEN spec, THEN mp, OF y1])
  then have A: "derive_state repo_planned example_lib ''r4.1'' = Inr PLANNED"
    by (simp add: low)
  have t2: "\<not> tag_exists repo_empty_type ''r4.1''"
    by (simp add: repo_empty_type_def memory_client_def)
  have b2: "list_branches repo_empty_type (SNAPSHOT_BRANCH_PREFIX @ ''r4.1'' @ ''-*'') = []"
    by (simp add: repo_empty_type_def memory_client_def)
  have p2: "read_release_plan repo_empty_type example_lib =
            Inr (YMap [(YStr ''repository'',
                        YMap [(YStr ''target_release_tag'', YStr ''r4.1''),
                              (YStr ''target_release_type'', YStr [])])])"
    by code_simp
  have r2: "map_of [(YStr ''repository'',
                     YMap [(YStr ''target_release_tag'', YStr ''r4.1''),
                           (YStr ''target_release_type'', YStr [])])]
              (YStr ''repository'') =
            Some (YMap [(YStr ''target_release_tag'', YStr ''r4.1''),
                        (YStr ''target_release_type'', YStr [])])"
    by simp
  have g2: "map_of [(YStr ''target_release_tag'', YStr ''r4.1''),
                    (YStr ''target_release_type'', YStr [])]
              (YStr ''target_release_tag'') = Some (YStr ''r4.1'')"
    by simp
  have y2: "map_of [(YStr ''target_release_tag'', YStr ''r4.1''),
                    (YStr ''target_release_type'', YStr [])]
              (YStr ''target_release_type'') = Some (YStr [])"
    by simp
  have f2: "\<not> truthy (YStr [])"
    by simp
  note plan2 = derive_state_unpublished [OF t2, of example_lib, THEN conjunct2, THEN mp, OF b2,
      THEN conjunct2, THEN conjunct2, THEN conjunct2, THEN spec, THEN spec, THEN mp, OF p2,
      THEN mp, OF r2, THEN conjunct2, THEN mp, OF g2]
  have B: "derive_state repo_empty_type example_lib ''r4.1'' = Inr NOT_PLANNED"
    by (rule plan2 [THEN conjunct2, THEN conjunct2, THEN spec, THEN mp, OF y2, THEN mp, OF f2])
  from A B show ?thesis by (rule conjI)
qed



text \<open>
  C8. \<^verbatim>\<open>get_current_snapshot\<close> returns \<^verbatim>\<open>None\<close> exactly when no branch matches the
  snapshot pattern of the tag, and for a matching branch whose metadata is missing or
  cannot be parsed it should fall back to the SHA of the branch and empty values without
  an exception. The code does so for a missing file and for a text the loader rejects
  with \<^verbatim>\<open>yaml.YAMLError\<close> (the two lemmas). It does not for a text on which the loader
  raises another exception, because \<^verbatim>\<open>_read_release_metadata\<close> handles
  \<^verbatim>\<open>yaml.YAMLError\<close> only: with the metadata \<^verbatim>\<open>{apis: [], d: 2001-13-40}\<close> on the
  snapshot branch of r4.1, the loader raises ValueError and the call raises it.
\<close>

lemma get_current_snapshot_absent_iff:
  "get_current_snapshot gh lib tag = Inr None \<longleftrightarrow>
     list_branches gh (SNAPSHOT_BRANCH_PREFIX @ tag @ ''-*'') = []"
  by (auto simp: get_current_snapshot_def and_then_def Let_def
           split: list.splits sum.splits prod.splits)

lemma get_current_snapshot_fallback_on_yaml_error:
  assumes "list_branches gh (SNAPSHOT_BRANCH_PREFIX @ tag @ ''-*'') = b # bs"
    and "missing_or_yaml_error gh lib RELEASE_METADATA_FILE (name b)"
  shows "\<exists>info. get_current_snapshot gh lib tag = Inr (Some info) \<and>
           SnapshotInfo.snapshot_branch info = name b \<and>
           src_commit_sha info = YStr (sha b) \<and>
           SnapshotInfo.release_type info = YStr [] \<and>
           apis info = YList [] \<and>
           commonalities_release info = YStr [] \<and>
           identity_consent_management_release info = YStr []"
proof -
  from assms(2) have "read_release_metadata gh lib (name b) = Inr YNull"
    by (simp add: read_release_metadata_def yaml_error_reads_null)
  with assms(1) show ?thesis
    by (simp add: get_current_snapshot_def Let_def)
qed

theorem get_current_snapshot_raises_on_bad_date:
  "list_branches repo_snapshot_bad_date (SNAPSHOT_BRANCH_PREFIX @ ''r4.1'' @ ''-*'') =
     [snapshot_branch_r41] \<and>
   get_file_content repo_snapshot_bad_date RELEASE_METADATA_FILE (name snapshot_branch_r41) =
     Some ''{apis: [], d: 2001-13-40}'' \<and>
   safe_load example_lib ''{apis: [], d: 2001-13-40}'' = Raises ValueError \<and>
   get_current_snapshot repo_snapshot_bad_date example_lib ''r4.1'' = Inl ValueError"
  by code_simp

section \<open>Properties of the release information\<close>

text \<open>
  C4. \<^verbatim>\<open>get_current_release_info\<close> validates the release plan first. When validation
  reports a configuration error (of type missing file, malformed YAML or missing field)
  the result is the error result, with no state, whatever else the repository holds.
  Every result the method returns has exactly one of state and configuration error, and
  its configuration error is the one validation reported; so a result in state
  \<^verbatim>\<open>NOT_PLANNED\<close> carries no configuration error. Validation succeeds exactly when the
  file exists, loads as a mapping, has a non-empty mapping under \<^verbatim>\<open>repository\<close> and a
  truthy \<^verbatim>\<open>target_release_tag\<close> in it.
\<close>

theorem release_info_error_excludes_state:
  "(\<forall>plan e. read_release_plan_with_validation gh lib = Inr (plan, Some e) \<longrightarrow>
        get_current_release_info gh lib =
          Inr \<lparr>success = False, release_tag = YNull, state = None, snapshot_branch = None,
                source = None, config_error = Some e, release_issue_number = None,
                release_type = YNull\<rparr> \<and>
        error_type e \<in> {''missing_file'', ''malformed_yaml'', ''missing_field''}) \<and>
   (\<forall>r. get_current_release_info gh lib = Inr r \<longrightarrow>
        (state r = None \<longleftrightarrow> config_error r \<noteq> None) \<and>
        (success r \<longleftrightarrow> config_error r = None) \<and>
        (\<exists>plan. read_release_plan_with_validation gh lib = Inr (plan, config_error r)) \<and>
        (state r = Some NOT_PLANNED \<longrightarrow> config_error r = None)) \<and>
   ((\<exists>plan. read_release_plan_with_validation gh lib = Inr (plan, None)) \<longleftrightarrow>
      (\<exists>content entries repo t.
         get_file_content gh RELEASE_PLAN_FILE ''main'' = Some content \<and>
         safe_load lib content = Loaded (YMap entries) \<and>
         map_of entries (YStr ''repository'') = Some (YMap repo) \<and>
         map_of repo (YStr ''target_release_tag'') = Some t \<and> truthy t))"
proof (intro conjI allI impI)
  fix plan e
  assume "read_release_plan_with_validation gh lib = Inr (plan, Some e)"
  then show "get_current_release_info gh lib =
          Inr \<lparr>success = False, release_tag = YNull, state = None, snapshot_branch = None,
                source = None, config_error = Some e, release_issue_number = None,
                release_type = YNull\<rparr>"
    by (simp add: get_current_release_info_def)
next
  fix plan e
  assume "read_release_plan_with_validation gh lib = Inr (plan, Some e)"
  then show "error_type e \<in> {''missing_file'', ''malformed_yaml'', ''missing_field''}"
    by (rule validation_error_types)
next
  fix r
  assume r: "get_current_release_info gh lib = Inr r"
  then obtain plan err where v: "read_release_plan_with_validation gh lib = Inr (plan, err)"
    by (cases "read_release_plan_with_validation gh lib")
       (auto simp: get_current_release_info_def)
  have both: "(state r = None \<longleftrightarrow> config_error r \<noteq> None) \<and>
              (success r \<longleftrightarrow> config_error r = None) \<and> config_error r = err"
  proof (cases err)
    case (Some e)
    with r v show ?thesis
      by (auto simp: get_current_release_info_def)
  next
    case None
    with r v show ?thesis
      by (auto simp: get_current_release_info_def and_then_def Let_def
               split: sum.splits list.splits if_splits)
  qed
  from both show "state r = None \<longleftrightarrow> config_error r \<noteq> None" by blast
  from both show "success r \<longleftrightarrow> config_error r = None" by blast
  from both v show "\<exists>plan. read_release_plan_with_validation gh lib = Inr (plan, config_error r)"
    by blast
  from both show "config_error r = None" if "state r = Some NOT_PLANNED"
    using that by auto
next
  show "(\<exists>plan. read_release_plan_with_validation gh lib = Inr (plan, None)) \<longleftrightarrow>
      (\<exists>content entries repo t.
         get_file_content gh RELEASE_PLAN_FILE ''main'' = Some content \<and>
         safe_load lib content = Loaded (YMap entries) \<and>
         map_of entries (YStr ''repository'') = Some (YMap repo) \<and>
         map_of repo (YStr ''target_release_tag'') = Some t \<and> truthy t)"
    by (rule validation_outcome)
qed

theorem release_info_error_excludes_state_witness:
  "(\<exists>r. get_current_release_info repo_no_plan example_lib = Inr r \<and>
        state r = None \<and> config_error r \<noteq> None \<and> \<not> success r) \<and>
   (\<exists>r. get_current_release_info repo_type_none example_lib = Inr r \<and>
        state r = Some NOT_PLANNED \<and> config_error r = None)"
proof -
  have e1: "read_release_plan_with_validation repo_no_plan example_lib =
            Inr (YNull, Some \<lparr>error_type = ''missing_file'',
                  message = ''No release-plan.yaml found on main branch'',
                  file_path = ''release-plan.yaml'', field_path = None\<rparr>)"
    by (simp add: read_release_plan_with_validation_def repo_no_plan_def memory_client_def
                  RELEASE_PLAN_FILE_def)
  note err = release_info_error_excludes_state [of repo_no_plan example_lib, THEN conjunct1,
      THEN spec, THEN spec, THEN mp, OF e1, THEN conjunct1]
  have A: "\<exists>r. get_current_release_info repo_no_plan example_lib = Inr r \<and>
        state r = None \<and> config_error r \<noteq> None \<and> \<not> success r"
    by (simp add: err)
  have r2: "get_current_release_info repo_type_none example_lib =
            Inr \<lparr>success = True, release_tag = YStr ''r4.1'', state = Some NOT_PLANNED,
                  snapshot_branch = None, source = Some ''release-plan.yaml'',
                  config_error = None, release_issue_number = None,
                  release_type = YStr ''None''\<rparr>"
    by code_simp
  note ok = release_info_error_excludes_state [of repo_type_none example_lib, THEN conjunct2,
      THEN conjunct1, THEN spec, THEN mp, OF r2]
  have B: "\<exists>r. get_current_release_info repo_type_none example_lib = Inr r \<and>
        state r = Some NOT_PLANNED \<and> config_error r = None"
    using r2 ok by simp
  from A B show ?thesis by (rule conjI)
qed

text \<open>
  C10. On the snapshot path of \<^verbatim>\<open>get_current_release_info\<close> (the plan is valid, its
  tag is not published, and a branch matches the snapshot pattern of the plan's tag)
  every result has the release type \<^verbatim>\<open>None\<close>, because no local variable is called
  \<^verbatim>\<open>snapshot\<close>; and a result is returned whenever the tag the path settles on is a
  string. The metadata on the branch may well name a release type:
  \<^verbatim>\<open>get_current_snapshot\<close> reports it, this method does not.
\<close>

theorem snapshot_path_release_type_null:
  assumes "read_release_plan_with_validation gh lib = Inr (YMap entries, None)"
    and "map_of entries (YStr ''repository'') = Some (YMap repo)"
    and "map_of repo (YStr ''target_release_tag'') = Some plan_tag"
    and "\<not> tag_exists gh (py_str lib plan_tag)"
    and "list_branches gh (SNAPSHOT_BRANCH_PREFIX @ py_str lib plan_tag @ ''-*'') = b # bs"
  shows "(\<forall>r. get_current_release_info gh lib = Inr r \<longrightarrow>
            release_type r = YNull \<and> snapshot_branch r = Some (name b) \<and>
            source r = Some ''release-metadata.yaml'' \<and>
            (state r = Some DRAFT_READY \<or> state r = Some SNAPSHOT_ACTIVE)) \<and>
         (\<forall>md m t. read_release_metadata gh lib (name b) = Inr md \<longrightarrow>
            metadata_release_tag_of md (name b) = Inr m \<longrightarrow>
            py_or m plan_tag = YStr t \<longrightarrow>
            (\<exists>r. get_current_release_info gh lib = Inr r))"
proof (intro conjI allI impI)
  fix r
  assume "get_current_release_info gh lib = Inr r"
  with assms have "release_type r = YNull \<and> snapshot_branch r = Some (name b) \<and>
            source r = Some ''release-metadata.yaml'' \<and>
            (state r = Some DRAFT_READY \<or> state r = Some SNAPSHOT_ACTIVE)"
    by (auto simp: get_current_release_info_def py_item_def py_get_def and_then_def Let_def
                   snapshot_release_type_def snapshot_path_locals_def
             split: sum.splits if_splits)
  then show "release_type r = YNull" and "snapshot_branch r = Some (name b)"
    and "source r = Some ''release-metadata.yaml''"
    and "state r = Some DRAFT_READY \<or> state r = Some SNAPSHOT_ACTIVE"
    by blast+
next
  fix md m t
  assume md: "read_release_metadata gh lib (name b) = Inr md"
    and m: "metadata_release_tag_of md (name b) = Inr m"
    and t: "py_or m plan_tag = YStr t"
  obtain n where n: "find_release_issue gh (YStr t) = Inr n"
    using find_release_issue_string by blast
  have "''snapshot'' \<notin> set (snapshot_path_locals h)" for h
    by (simp add: snapshot_path_locals_def)
  then have s: "snapshot_release_type h = Inr YNull" for h
    by (simp add: snapshot_release_type_def)
  from assms md m t n s show "\<exists>r. get_current_release_info gh lib = Inr r"
    by (simp add: get_current_release_info_def py_item_def py_get_def Let_def)
qed

theorem snapshot_path_release_type_null_witness:
  "(\<exists>info. get_current_snapshot repo_snapshot example_lib ''r4.1'' = Inr (Some info) \<and>
       SnapshotInfo.release_type info = YStr ''pre-release-rc'') \<and>
   (\<exists>r. get_current_release_info repo_snapshot example_lib = Inr r \<and>
       release_type r = YNull \<and>
       snapshot_branch r = Some ''release-snapshot/r4.1-abc1234'')"
proof -
  have h1: "read_release_plan_with_validation repo_snapshot example_lib =
            Inr (YMap [(YStr ''repository'',
                        YMap [(YStr ''target_release_tag'', YStr ''r4.1''),
                              (YStr ''target_release_type'', YStr ''pre-release-rc'')])], None)"
    by code_simp
  have h2: "map_of [(YStr ''repository'',
                     YMap [(YStr ''target_release_tag'', YStr ''r4.1''),
                           (YStr ''target_release_type'', YStr ''pre-release-rc'')])]
              (YStr ''repository'') =
            Some (YMap [(YStr ''target_release_tag'', YStr ''r4.1''),
                        (YStr ''target_release_type'', YStr ''pre-release-rc'')])"
    by simp
  have h3: "map_of [(YStr ''target_release_tag'', YStr ''r4.1''),
                    (YStr ''target_release_type'', YStr ''pre-release-rc'')]
              (YStr ''target_release_tag'') = Some (YStr ''r4.1'')"
    by simp
  have h4: "\<not> tag_exists repo_snapshot (py_str example_lib (YStr ''r4.1''))"
    by (simp add: repo_snapshot_def memory_client_def)
  have h5: "list_branches repo_snapshot
              (SNAPSHOT_BRANCH_PREFIX @ py_str example_lib (YStr ''r4.1'') @ ''-*'') =
            snapshot_branch_r41 # []"
    by (simp add: repo_snapshot_def memory_client_def snapshot_branch_r41_def
                  SNAPSHOT_BRANCH_PREFIX_def py_str_def)
  have md: "read_release_metadata repo_snapshot example_lib (name snapshot_branch_r41) =
            Inr (metadata_doc ''r4.1'' ''pre-release-rc'' ''qod'' ''3.3.0-rc.4'')"
    by code_simp
  have m: "metadata_release_tag_of (metadata_doc ''r4.1'' ''pre-release-rc'' ''qod'' ''3.3.0-rc.4'')
             (name snapshot_branch_r41) = Inr (YStr ''r4.1'')"
    by code_simp
  have o: "py_or (YStr ''r4.1'') (YStr ''r4.1'') = YStr ''r4.1''"
    by (simp add: py_or_def)
  note main = snapshot_path_release_type_null [OF h1 h2 h3 h4 h5]
  from main md m o obtain r where r: "get_current_release_info repo_snapshot example_lib = Inr r"
    by blast
  with main have "release_type r = YNull \<and> snapshot_branch r = Some (name snapshot_branch_r41)"
    by blast
  with r have B: "\<exists>r. get_current_release_info repo_snapshot example_lib = Inr r \<and>
       release_type r = YNull \<and>
       snapshot_branch r = Some ''release-snapshot/r4.1-abc1234''"
    by (auto simp: snapshot_branch_r41_def)
  have A: "\<exists>info. get_current_snapshot repo_snapshot example_lib ''r4.1'' = Inr (Some info) \<and>
       SnapshotInfo.release_type info = YStr ''pre-release-rc''"
  proof -
    have "get_current_snapshot repo_snapshot example_lib ''r4.1'' =
          Inr (Some \<lparr>snapshot_id = ''r4.1-abc1234'',
                      snapshot_branch = ''release-snapshot/r4.1-abc1234'',
                      release_review_branch = ''release-review/r4.1-abc1234'',
                      src_commit_sha = YStr ''abc1234def'',
                      created_at = 0,
                      release_pr_number = None,
                      release_type = YStr ''pre-release-rc'',
                      apis = YList [YMap [(YStr ''api_name'', YStr ''qod''),
                                          (YStr ''api_version'', YStr ''3.3.0-rc.4'')]],
                      commonalities_release = YStr [],
                      identity_consent_management_release = YStr []\<rparr>)"
      by code_simp
    then show ?thesis by simp
  qed
  from A B show ?thesis by (rule conjI)
qed


end
